theory Spec2Isabelle
  imports Main "HOL-Library.Word"
begin

unbundle bit_operations_syntax

section \<open>The AAR peripheral model (NRF\_AAR.c)\<close>

text \<open>
  The C integers are modelled as machine words: \<open>uint8_t\<close> as \<open>8 word\<close>, \<open>uint32_t\<close>
  as \<open>32 word\<close>, \<open>bs_time_t\<close> as \<open>64 word\<close>. A C \<open>int\<close> (\<open>matching_irk\<close>, \<open>n_irks\<close>,
  the loop counter \<open>i\<close>) is a \<open>32 word\<close> holding its two's complement bit pattern, so
  \<open>-1\<close> is \<open>0xFFFFFFFF\<close>; arithmetic on it wraps and the conversion between \<open>int\<close>
  and \<open>uint32_t\<close> keeps the bits. The registers ADDRPTR and IRKPTR hold pointers in 32
  bits, so memory is a function from 32-bit addresses to bytes and pointer arithmetic is
  word arithmetic.

  The file-scope variables of NRF\_AAR.c are the fields of one state record, passed to
  every function and returned updated. The interconnect, the interrupt controller, the
  scheduler and the AES gateway are outside the file: each call into them is appended to
  the field \<open>calls\<close> of the state. The tracing calls (\<open>bs_trace_raw_time\<close>) change
  nothing and are left out.
\<close>

type_synonym u8 = "8 word"
type_synonym u32 = "32 word"
type_synonym bs_time_t = "64 word"
type_synonym memory = "u32 \<Rightarrow> u8"

subsection \<open>Register file and peripheral state\<close>

text \<open>
  Modelled from the spec: the register structure \<open>NRF_AAR_Type\<close> is declared in a header
  that is not among the sources. The record has the registers that NRF\_AAR.c reads or
  writes; they are the ones section 6 of the specification lists.
\<close>

record NRF_AAR_Type =
  TASKS_START :: u32
  TASKS_STOP :: u32
  EVENTS_END :: u32
  EVENTS_RESOLVED :: u32
  EVENTS_NOTRESOLVED :: u32
  INTENSET :: u32
  INTENCLR :: u32
  STATUS :: u32
  ENABLE :: u32
  NIRK :: u32
  IRKPTR :: u32
  ADDRPTR :: u32

datatype ppi_event_id = AAR_EVENTS_END | AAR_EVENTS_RESOLVED | AAR_EVENTS_NOTRESOLVED

text \<open>
  The calls the peripheral makes into its collaborators, in the order it makes them:
  \<^item> \<open>Ppi_event e r\<close>: \<open>nrf_ppi_event(e)\<close>, with the register file \<open>r\<close> as it is at the
    moment of the call (what an observer woken by the event reads);
  \<^item> \<open>Irq_set\<close>: \<open>hw_irq_ctrl_set_irq(CCM_AAR_IRQn)\<close>;
  \<^item> \<open>Find_next_event t\<close>: \<open>nsi_hws_find_next_event()\<close>, with the value \<open>t\<close> of
    \<open>Timer_AAR\<close> that the scheduler picks up;
  \<^item> \<open>Aes_128 key block\<close>: \<open>BLECrypt_if_aes_128(key, block, out)\<close>.
\<close>

datatype ext_call =
    Ppi_event ppi_event_id NRF_AAR_Type
  | Irq_set
  | Find_next_event bs_time_t
  | Aes_128 "u8 list" "u8 list"

record aar_state =
  NRF_AAR_regs :: NRF_AAR_Type
  Timer_AAR :: bs_time_t
  AAR_INTEN :: u32
  AAR_Running :: bool
  matching_irk :: u32
  calls :: "ext_call list"

text \<open>
  Modelled from the spec: \<open>TIME_NEVER\<close> is declared with \<open>bs_time_t\<close> in a scheduler
  header that is not among the sources. The specification calls it "none", the value of
  the pending completion time when nothing is pending; it is the largest value of the
  time type, later than every instant.
\<close>

definition TIME_NEVER :: bs_time_t where
  "TIME_NEVER = - 1"

text \<open>
  Modelled from the spec: the interrupt mask bits come from a device header that is not
  among the sources. The specification has the mask as a bit set over End, Resolved and
  NotResolved: one bit each, here bits 0, 1 and 2.
\<close>

definition AAR_INTENSET_END_Msk :: u32 where
  "AAR_INTENSET_END_Msk = 1"

definition AAR_INTENCLR_RESOLVED_Msk :: u32 where
  "AAR_INTENCLR_RESOLVED_Msk = 2"

definition AAR_INTENCLR_NOTRESOLVED_Msk :: u32 where
  "AAR_INTENCLR_NOTRESOLVED_Msk = 4"

definition regs_zero :: NRF_AAR_Type where
  "regs_zero = \<lparr> TASKS_START = 0, TASKS_STOP = 0, EVENTS_END = 0, EVENTS_RESOLVED = 0,
     EVENTS_NOTRESOLVED = 0, INTENSET = 0, INTENCLR = 0, STATUS = 0, ENABLE = 0, NIRK = 0,
     IRKPTR = 0, ADDRPTR = 0 \<rparr>"

definition nrf_aar_init :: "aar_state \<Rightarrow> aar_state" where
  "nrf_aar_init s =
     s\<lparr> NRF_AAR_regs := regs_zero, AAR_INTEN := 0, Timer_AAR := TIME_NEVER,
        AAR_Running := False \<rparr>"

subsection \<open>Event signalling\<close>

definition signal_EVENTS_END :: "aar_state \<Rightarrow> aar_state" where
  "signal_EVENTS_END s =
     (let r = (NRF_AAR_regs s)\<lparr> EVENTS_END := 1 \<rparr>;
          s1 = s\<lparr> NRF_AAR_regs := r, calls := calls s @ [Ppi_event AAR_EVENTS_END r] \<rparr>
      in if AAR_INTEN s1 AND AAR_INTENSET_END_Msk \<noteq> 0
         then s1\<lparr> calls := calls s1 @ [Irq_set] \<rparr> else s1)"

definition signal_EVENTS_RESOLVED :: "aar_state \<Rightarrow> aar_state" where
  "signal_EVENTS_RESOLVED s =
     (let r = (NRF_AAR_regs s)\<lparr> EVENTS_RESOLVED := 1 \<rparr>;
          s1 = s\<lparr> NRF_AAR_regs := r, calls := calls s @ [Ppi_event AAR_EVENTS_RESOLVED r] \<rparr>
      in if AAR_INTEN s1 AND AAR_INTENCLR_RESOLVED_Msk \<noteq> 0
         then s1\<lparr> calls := calls s1 @ [Irq_set] \<rparr> else s1)"

definition signal_EVENTS_NOTRESOLVED :: "aar_state \<Rightarrow> aar_state" where
  "signal_EVENTS_NOTRESOLVED s =
     (let r = (NRF_AAR_regs s)\<lparr> EVENTS_NOTRESOLVED := 1 \<rparr>;
          s1 = s\<lparr> NRF_AAR_regs := r, calls := calls s @ [Ppi_event AAR_EVENTS_NOTRESOLVED r] \<rparr>
      in if AAR_INTEN s1 AND AAR_INTENCLR_NOTRESOLVED_Msk \<noteq> 0
         then s1\<lparr> calls := calls s1 @ [Irq_set] \<rparr> else s1)"

subsection \<open>The resolution engine: \<open>nrf_aar_resolve\<close>\<close>

text \<open>
  The AES-128 gateway \<open>BLECrypt_if_aes_128(key, block, out)\<close> is a parameter: it takes
  the 16 key bytes and the 16 block bytes and gives the bytes it writes to \<open>out\<close>, by
  index.
\<close>

type_synonym aes_128 = "u8 list \<Rightarrow> u8 list \<Rightarrow> nat \<Rightarrow> u8"

text \<open>\<open>*(uint32_t*)p\<close> on the little-endian host: the byte at \<open>p\<close> is the least significant.\<close>

definition read_u32 :: "memory \<Rightarrow> u32 \<Rightarrow> u32" where
  "read_u32 mem p =
     ucast (mem p) OR push_bit 8 (ucast (mem (p + 1))) OR
     push_bit 16 (ucast (mem (p + 2))) OR push_bit 24 (ucast (mem (p + 3)))"

definition address_ptr :: "NRF_AAR_Type \<Rightarrow> u32" where
  "address_ptr regs = ADDRPTR regs + 3"

definition prand :: "memory \<Rightarrow> NRF_AAR_Type \<Rightarrow> u32" where
  "prand mem regs = read_u32 mem (address_ptr regs + 3) AND 0xFFFFFF"

text \<open>\<open>memset(prand_buf, 0, 16)\<close>, then bytes 15, 14 and 13 from \<open>prand\<close>.\<close>

definition prand_buf :: "memory \<Rightarrow> NRF_AAR_Type \<Rightarrow> u8 list" where
  "prand_buf mem regs =
     (replicate 16 0)
       [15 := ucast (prand mem regs AND 0xFF),
        14 := ucast (drop_bit 8 (prand mem regs) AND 0xFF),
        13 := ucast (drop_bit 16 (prand mem regs) AND 0xFF)]"

text \<open>The 16 bytes at \<open>irkptr = IRKPTR + 16 * i\<close>.\<close>

definition irk :: "memory \<Rightarrow> NRF_AAR_Type \<Rightarrow> u32 \<Rightarrow> u8 list" where
  "irk mem regs i = map (\<lambda>k. mem (IRKPTR regs + 16 * i + of_nat k)) [0 ..< 16]"

definition hash_check :: "aes_128 \<Rightarrow> memory \<Rightarrow> NRF_AAR_Type \<Rightarrow> u32 \<Rightarrow> u32" where
  "hash_check aes mem regs i =
     (let hash_check_buf = aes (irk mem regs i) (prand_buf mem regs)
      in ucast (hash_check_buf 15) OR push_bit 8 (ucast (hash_check_buf 14)) OR
         push_bit 16 (ucast (hash_check_buf 13)))"

definition hash :: "memory \<Rightarrow> NRF_AAR_Type \<Rightarrow> u32" where
  "hash mem regs = read_u32 mem (address_ptr regs) AND 0xFFFFFF"

text \<open>
  The \<open>for\<close> loop, from counter \<open>i\<close> on. The result is \<open>*good_irk\<close>, the returned count
  and the gateway calls made so far. The test \<open>i < NRF_AAR_regs.NIRK\<close> compares an
  \<open>int\<close> with a \<open>uint32_t\<close>, so it is the unsigned comparison.
\<close>

function resolve_loop ::
  "aes_128 \<Rightarrow> memory \<Rightarrow> NRF_AAR_Type \<Rightarrow> ext_call list \<Rightarrow> u32 \<Rightarrow> u32 \<times> u32 \<times> ext_call list"
where
  "resolve_loop aes mem regs cs i =
     (if i < NIRK regs then
        (if hash mem regs = hash_check aes mem regs i
         then (i, i + 1, cs @ [Aes_128 (irk mem regs i) (prand_buf mem regs)])
         else resolve_loop aes mem regs
                (cs @ [Aes_128 (irk mem regs i) (prand_buf mem regs)]) (i + 1))
      else (- 1, i, cs))"
  by pat_completeness auto
termination
proof (relation "measure (\<lambda>(aes, mem, regs, cs, i). unat (NIRK regs) - unat i)")
  show "wf (measure (\<lambda>(aes, mem, regs, cs, i). unat (NIRK regs) - unat i))"
    by simp
next
  fix aes :: aes_128 and mem :: memory and regs :: NRF_AAR_Type
    and cs :: "ext_call list" and i :: u32
  assume lt: "i < NIRK regs"
  then have "unat i < unat (NIRK regs)"
    by (simp add: word_less_nat_alt)
  moreover have "unat (NIRK regs) < 2 ^ 32"
    using unsigned_less [of "NIRK regs", where ?'a = nat] by simp
  ultimately have "unat i + 1 < 2 ^ 32"
    by simp
  then have "unat (i + 1) = unat i + 1"
    by (simp add: unat_word_ariths)
  with \<open>unat i < unat (NIRK regs)\<close>
  show "((aes, mem, regs, cs @ [Aes_128 (irk mem regs i) (prand_buf mem regs)], i + 1),
         (aes, mem, regs, cs, i))
        \<in> measure (\<lambda>(aes, mem, regs, cs, i). unat (NIRK regs) - unat i)"
    by simp
qed

declare resolve_loop.simps [simp del]

definition nrf_aar_resolve :: "aes_128 \<Rightarrow> memory \<Rightarrow> NRF_AAR_Type \<Rightarrow> u32 \<times> u32 \<times> ext_call list" where
  "nrf_aar_resolve aes mem regs =
     (if drop_bit 22 (prand mem regs) \<noteq> 1 then (- 1, NIRK regs, [])
      else resolve_loop aes mem regs [] 0)"

text \<open>
  The address as the specification describes it, to compare \<open>prand\<close> and \<open>hash\<close> with:
  byte \<open>k\<close> of the 6-byte address that follows the 3 header bytes, the prand field as the
  top 3 address bytes read little-endian, and the hash field as the low 3 address bytes
  read little-endian.
\<close>

definition address_byte :: "memory \<Rightarrow> NRF_AAR_Type \<Rightarrow> nat \<Rightarrow> u8" where
  "address_byte mem regs k = mem (ADDRPTR regs + 3 + of_nat k)"

definition prand_field :: "memory \<Rightarrow> NRF_AAR_Type \<Rightarrow> nat" where
  "prand_field mem regs =
     unat (address_byte mem regs 3) + 2 ^ 8 * unat (address_byte mem regs 4) +
     2 ^ 16 * unat (address_byte mem regs 5)"

definition hash_field :: "memory \<Rightarrow> NRF_AAR_Type \<Rightarrow> nat" where
  "hash_field mem regs =
     unat (address_byte mem regs 0) + 2 ^ 8 * unat (address_byte mem regs 1) +
     2 ^ 16 * unat (address_byte mem regs 2)"

subsection \<open>Tasks, register side effects and the completion callback\<close>

text \<open>
  \<open>nsi_hws_get_time()\<close> is the parameter \<open>now\<close>. In
  \<open>nsi_hws_get_time() + 1 + 6 * n_irks\<close> the product is an \<open>int\<close>, converted to the
  64-bit time type by sign extension before the addition.
\<close>

definition nrf_aar_TASK_START :: "aes_128 \<Rightarrow> memory \<Rightarrow> bs_time_t \<Rightarrow> aar_state \<Rightarrow> aar_state" where
  "nrf_aar_TASK_START aes mem now s =
     (if ENABLE (NRF_AAR_regs s) \<noteq> 3 then s
      else
        (case nrf_aar_resolve aes mem (NRF_AAR_regs s) of
           (good_irk, n_irks, cs) \<Rightarrow>
             s\<lparr> AAR_Running := True,
                matching_irk := good_irk,
                Timer_AAR := now + 1 + scast (6 * n_irks),
                calls := calls s @ cs @ [Find_next_event (now + 1 + scast (6 * n_irks))] \<rparr>))"

definition nrf_aar_TASK_STOP :: "aar_state \<Rightarrow> aar_state" where
  "nrf_aar_TASK_STOP s =
     (if \<not> AAR_Running s then s
      else signal_EVENTS_END
             (s\<lparr> AAR_Running := False, Timer_AAR := TIME_NEVER,
                 calls := calls s @ [Find_next_event TIME_NEVER] \<rparr>))"

definition nrf_aar_regw_sideeffects_INTENSET :: "aar_state \<Rightarrow> aar_state" where
  "nrf_aar_regw_sideeffects_INTENSET s =
     (if INTENSET (NRF_AAR_regs s) \<noteq> 0 then
        (let inten = AAR_INTEN s OR INTENSET (NRF_AAR_regs s)
         in s\<lparr> AAR_INTEN := inten, NRF_AAR_regs := (NRF_AAR_regs s)\<lparr> INTENSET := inten \<rparr> \<rparr>)
      else s)"

definition nrf_aar_regw_sideeffects_INTENCLR :: "aar_state \<Rightarrow> aar_state" where
  "nrf_aar_regw_sideeffects_INTENCLR s =
     (if INTENCLR (NRF_AAR_regs s) \<noteq> 0 then
        (let inten = AAR_INTEN s AND NOT (INTENCLR (NRF_AAR_regs s))
         in s\<lparr> AAR_INTEN := inten,
               NRF_AAR_regs := (NRF_AAR_regs s)\<lparr> INTENSET := inten, INTENCLR := 0 \<rparr> \<rparr>)
      else s)"

definition nrf_aar_regw_sideeffects_TASKS_START ::
  "aes_128 \<Rightarrow> memory \<Rightarrow> bs_time_t \<Rightarrow> aar_state \<Rightarrow> aar_state" where
  "nrf_aar_regw_sideeffects_TASKS_START aes mem now s =
     (if TASKS_START (NRF_AAR_regs s) \<noteq> 0 then
        nrf_aar_TASK_START aes mem now
          (s\<lparr> NRF_AAR_regs := (NRF_AAR_regs s)\<lparr> TASKS_START := 0 \<rparr> \<rparr>)
      else s)"

definition nrf_aar_regw_sideeffects_TASKS_STOP :: "aar_state \<Rightarrow> aar_state" where
  "nrf_aar_regw_sideeffects_TASKS_STOP s =
     (if TASKS_STOP (NRF_AAR_regs s) \<noteq> 0 then
        nrf_aar_TASK_STOP (s\<lparr> NRF_AAR_regs := (NRF_AAR_regs s)\<lparr> TASKS_STOP := 0 \<rparr> \<rparr>)
      else s)"

definition nrf_aar_timer_triggered :: "aar_state \<Rightarrow> aar_state" where
  "nrf_aar_timer_triggered s =
     (let s1 = s\<lparr> AAR_Running := False, Timer_AAR := TIME_NEVER,
                  calls := calls s @ [Find_next_event TIME_NEVER] \<rparr>;
          s2 = (if matching_irk s1 \<noteq> - 1
                then signal_EVENTS_RESOLVED
                       (s1\<lparr> NRF_AAR_regs := (NRF_AAR_regs s1)\<lparr> STATUS := matching_irk s1 \<rparr> \<rparr>)
                else signal_EVENTS_NOTRESOLVED s1)
      in signal_EVENTS_END s2)"

subsection \<open>Register writes by the firmware\<close>

text \<open>
  A write to INTENSET or INTENCLR is the store of the written value into the register
  followed by the register's side-effect function.
\<close>

definition write_INTENSET :: "u32 \<Rightarrow> aar_state \<Rightarrow> aar_state" where
  "write_INTENSET v s =
     nrf_aar_regw_sideeffects_INTENSET (s\<lparr> NRF_AAR_regs := (NRF_AAR_regs s)\<lparr> INTENSET := v \<rparr> \<rparr>)"

definition write_INTENCLR :: "u32 \<Rightarrow> aar_state \<Rightarrow> aar_state" where
  "write_INTENCLR v s =
     nrf_aar_regw_sideeffects_INTENCLR (s\<lparr> NRF_AAR_regs := (NRF_AAR_regs s)\<lparr> INTENCLR := v \<rparr> \<rparr>)"

subsection \<open>Observations and runs\<close>

text \<open>The events published on the interconnect, oldest first, each with the registers seen then.\<close>

fun ppi_trace :: "ext_call list \<Rightarrow> (ppi_event_id \<times> NRF_AAR_Type) list" where
  "ppi_trace [] = []"
| "ppi_trace (Ppi_event e r # cs) = (e, r) # ppi_trace cs"
| "ppi_trace (Irq_set # cs) = ppi_trace cs"
| "ppi_trace (Find_next_event t # cs) = ppi_trace cs"
| "ppi_trace (Aes_128 k b # cs) = ppi_trace cs"

text \<open>
  What can happen to the peripheral: the firmware stores into the register file, a task
  is triggered directly (from the interconnect) or through its task register, an
  interrupt-enable register is written, the scheduler runs the completion callback, or
  the peripheral is re-initialised. A start carries the memory contents and the
  simulated time at that instant.
\<close>

datatype aar_op =
    Op_regs_write NRF_AAR_Type
  | Op_TASK_START memory bs_time_t
  | Op_TASK_STOP
  | Op_regw_TASKS_START memory bs_time_t
  | Op_regw_TASKS_STOP
  | Op_write_INTENSET u32
  | Op_write_INTENCLR u32
  | Op_timer_triggered
  | Op_init

fun step :: "aes_128 \<Rightarrow> aar_state \<Rightarrow> aar_op \<Rightarrow> aar_state" where
  "step aes s (Op_regs_write r) = s\<lparr> NRF_AAR_regs := r \<rparr>"
| "step aes s (Op_TASK_START mem now) = nrf_aar_TASK_START aes mem now s"
| "step aes s Op_TASK_STOP = nrf_aar_TASK_STOP s"
| "step aes s (Op_regw_TASKS_START mem now) = nrf_aar_regw_sideeffects_TASKS_START aes mem now s"
| "step aes s Op_regw_TASKS_STOP = nrf_aar_regw_sideeffects_TASKS_STOP s"
| "step aes s (Op_write_INTENSET v) = write_INTENSET v s"
| "step aes s (Op_write_INTENCLR v) = write_INTENCLR v s"
| "step aes s Op_timer_triggered = nrf_aar_timer_triggered s"
| "step aes s Op_init = nrf_aar_init s"

fun run :: "aes_128 \<Rightarrow> aar_state \<Rightarrow> aar_op list \<Rightarrow> aar_state" where
  "run aes s [] = s"
| "run aes s (op # ops) = run aes (step aes s op) ops"

text \<open>
  The arithmetic of a start stays in range when the peripheral, if enabled, has a key
  count whose sixfold fits a C \<open>int\<close> and a completion time, for the largest possible
  count, that is before \<open>TIME_NEVER\<close>.
\<close>

definition start_in_range :: "bs_time_t \<Rightarrow> NRF_AAR_Type \<Rightarrow> bool" where
  "start_in_range now regs =
     (ENABLE regs = 3 \<longrightarrow>
        6 * unat (NIRK regs) < 2 ^ 31 \<and> unat now + 1 + 6 * unat (NIRK regs) < 2 ^ 64 - 1)"

fun op_in_range :: "aar_state \<Rightarrow> aar_op \<Rightarrow> bool" where
  "op_in_range s (Op_TASK_START mem now) = start_in_range now (NRF_AAR_regs s)"
| "op_in_range s (Op_regw_TASKS_START mem now) = start_in_range now (NRF_AAR_regs s)"
| "op_in_range s op = True"

fun ops_in_range :: "aes_128 \<Rightarrow> aar_state \<Rightarrow> aar_op list \<Rightarrow> bool" where
  "ops_in_range aes s [] = True"
| "ops_in_range aes s (op # ops) = (op_in_range s op \<and> ops_in_range aes (step aes s op) ops)"

subsection \<open>A concrete configuration\<close>

text \<open>
  A stand-in for the gateway, for running the model on concrete inputs: output byte \<open>k\<close>
  is key byte \<open>k\<close> XOR block byte \<open>k\<close>.
\<close>

definition xor_gateway :: aes_128 where
  "xor_gateway key block k = (key ! k) XOR (block ! k)"

text \<open>
  Memory with a packet at \<open>0x100\<close> (three header bytes, then the address
  \<open>01 00 40 00 00 40\<close>: hash \<open>0x400001\<close>, prand \<open>0x400000\<close>) and two keys at \<open>0x200\<close>:
  key 0 is all zero, key 1 is zero but for its last byte, which is 1. With
  \<open>xor_gateway\<close> key 0 gives the hash check \<open>0x400000\<close> and key 1 gives \<open>0x400001\<close>.
\<close>

definition ex_mem :: memory where
  "ex_mem = (\<lambda>a. 0)(0x103 := 0x01, 0x105 := 0x40, 0x108 := 0x40, 0x21F := 0x01)"

text \<open>The same with address \<open>01 00 40 00 00 00\<close>: the top bits of prand are 00.\<close>

definition ex_mem_nr :: memory where
  "ex_mem_nr = (\<lambda>a. 0)(0x103 := 0x01, 0x105 := 0x40, 0x21F := 0x01)"

definition ex_regs :: NRF_AAR_Type where
  "ex_regs = regs_zero\<lparr> ENABLE := 3, NIRK := 2, IRKPTR := 0x200, ADDRPTR := 0x100 \<rparr>"

definition ex_idle :: aar_state where
  "ex_idle = \<lparr> NRF_AAR_regs = ex_regs, Timer_AAR = TIME_NEVER, AAR_INTEN = 0,
               AAR_Running = False, matching_irk = 0, calls = [] \<rparr>"

text \<open>The state after a start at time 100 from \<open>ex_idle\<close>.\<close>

definition ex_running :: aar_state where
  "ex_running = nrf_aar_TASK_START xor_gateway ex_mem 100 ex_idle"

text \<open>
  A run from reset: the firmware programs the registers, starts a resolution at time 100,
  enables the End interrupt, the completion fires, and a second resolution (of the
  address that is not resolvable) starts at time 200.
\<close>

definition ex_ops :: "aar_op list" where
  "ex_ops = [Op_regs_write ex_regs, Op_TASK_START ex_mem 100, Op_write_INTENSET 1,
             Op_timer_triggered, Op_TASK_START ex_mem_nr 200]"

section \<open>Properties\<close>

subsection \<open>The event trace of the signalling functions\<close>

lemma ppi_trace_append: "ppi_trace (xs @ ys) = ppi_trace xs @ ppi_trace ys"
  by (induction xs rule: ppi_trace.induct) simp_all

lemma ppi_trace_signal_EVENTS_END:
  "ppi_trace (calls (signal_EVENTS_END s)) =
     ppi_trace (calls s) @ [(AAR_EVENTS_END, (NRF_AAR_regs s)\<lparr> EVENTS_END := 1 \<rparr>)]"
  by (simp add: signal_EVENTS_END_def Let_def ppi_trace_append)

lemma regs_signal_EVENTS_END:
  "NRF_AAR_regs (signal_EVENTS_END s) = (NRF_AAR_regs s)\<lparr> EVENTS_END := 1 \<rparr>"
  by (simp add: signal_EVENTS_END_def Let_def)

lemma ppi_trace_signal_EVENTS_RESOLVED:
  "ppi_trace (calls (signal_EVENTS_RESOLVED s)) =
     ppi_trace (calls s) @ [(AAR_EVENTS_RESOLVED, (NRF_AAR_regs s)\<lparr> EVENTS_RESOLVED := 1 \<rparr>)]"
  by (simp add: signal_EVENTS_RESOLVED_def Let_def ppi_trace_append)

lemma regs_signal_EVENTS_RESOLVED:
  "NRF_AAR_regs (signal_EVENTS_RESOLVED s) = (NRF_AAR_regs s)\<lparr> EVENTS_RESOLVED := 1 \<rparr>"
  by (simp add: signal_EVENTS_RESOLVED_def Let_def)

lemma ppi_trace_signal_EVENTS_NOTRESOLVED:
  "ppi_trace (calls (signal_EVENTS_NOTRESOLVED s)) =
     ppi_trace (calls s) @
       [(AAR_EVENTS_NOTRESOLVED, (NRF_AAR_regs s)\<lparr> EVENTS_NOTRESOLVED := 1 \<rparr>)]"
  by (simp add: signal_EVENTS_NOTRESOLVED_def Let_def ppi_trace_append)

lemma regs_signal_EVENTS_NOTRESOLVED:
  "NRF_AAR_regs (signal_EVENTS_NOTRESOLVED s) = (NRF_AAR_regs s)\<lparr> EVENTS_NOTRESOLVED := 1 \<rparr>"
  by (simp add: signal_EVENTS_NOTRESOLVED_def Let_def)

lemma signal_frame:
  "Timer_AAR (signal_EVENTS_END s) = Timer_AAR s"
  "AAR_Running (signal_EVENTS_END s) = AAR_Running s"
  "AAR_INTEN (signal_EVENTS_END s) = AAR_INTEN s"
  "matching_irk (signal_EVENTS_END s) = matching_irk s"
  "Timer_AAR (signal_EVENTS_RESOLVED s) = Timer_AAR s"
  "AAR_Running (signal_EVENTS_RESOLVED s) = AAR_Running s"
  "AAR_INTEN (signal_EVENTS_RESOLVED s) = AAR_INTEN s"
  "matching_irk (signal_EVENTS_RESOLVED s) = matching_irk s"
  "Timer_AAR (signal_EVENTS_NOTRESOLVED s) = Timer_AAR s"
  "AAR_Running (signal_EVENTS_NOTRESOLVED s) = AAR_Running s"
  "AAR_INTEN (signal_EVENTS_NOTRESOLVED s) = AAR_INTEN s"
  "matching_irk (signal_EVENTS_NOTRESOLVED s) = matching_irk s"
  by (simp_all add: signal_EVENTS_END_def signal_EVENTS_RESOLVED_def
        signal_EVENTS_NOTRESOLVED_def Let_def)

subsection \<open>Interrupt-enable registers\<close>

text \<open>
  Claim C8. Interrupt-mask writes are idempotent. Writing a value \<open>v\<close> to INTENSET twice
  leaves the peripheral exactly as writing it once does, and the mask after the write is
  the old mask OR \<open>v\<close>; writing \<open>v\<close> to INTENCLR twice leaves the peripheral exactly as
  writing it once does, and the mask after the write is the old mask AND NOT \<open>v\<close>. After
  a write of a nonzero \<open>v\<close> to INTENCLR the INTENCLR register reads zero and the
  INTENSET register reads the resulting mask.
\<close>

theorem inten_writes_idempotent:
  "write_INTENSET v (write_INTENSET v s) = write_INTENSET v s
   \<and> AAR_INTEN (write_INTENSET v s) = AAR_INTEN s OR v
   \<and> write_INTENCLR v (write_INTENCLR v s) = write_INTENCLR v s
   \<and> AAR_INTEN (write_INTENCLR v s) = AAR_INTEN s AND NOT v
   \<and> (v \<noteq> 0 \<longrightarrow>
        INTENCLR (NRF_AAR_regs (write_INTENCLR v s)) = 0
        \<and> INTENSET (NRF_AAR_regs (write_INTENCLR v s)) = AAR_INTEN (write_INTENCLR v s))"
  by (simp add: write_INTENSET_def write_INTENCLR_def nrf_aar_regw_sideeffects_INTENSET_def
        nrf_aar_regw_sideeffects_INTENCLR_def Let_def)

text \<open>
  On \<open>ex_idle\<close> with the mask \<open>7\<close>, the write of \<open>2\<close> to INTENCLR: the mask becomes \<open>5\<close>,
  INTENCLR reads \<open>0\<close> and INTENSET reads \<open>5\<close>.
\<close>

theorem inten_writes_idempotent_witness:
  "(2 :: u32) \<noteq> 0
   \<and> AAR_INTEN (write_INTENCLR 2 (ex_idle\<lparr> AAR_INTEN := 7 \<rparr>)) = 5
   \<and> INTENCLR (NRF_AAR_regs (write_INTENCLR 2 (ex_idle\<lparr> AAR_INTEN := 7 \<rparr>))) = 0
   \<and> INTENSET (NRF_AAR_regs (write_INTENCLR 2 (ex_idle\<lparr> AAR_INTEN := 7 \<rparr>))) = 5
   \<and> write_INTENCLR 2 (write_INTENCLR 2 (ex_idle\<lparr> AAR_INTEN := 7 \<rparr>)) =
       write_INTENCLR 2 (ex_idle\<lparr> AAR_INTEN := 7 \<rparr>)"
  using inten_writes_idempotent [of 2 "ex_idle\<lparr> AAR_INTEN := 7 \<rparr>"]
  by (simp add: ex_idle_def)

text \<open>
  Claim C10. Writing zero to INTENSET or to INTENCLR is a complete no-op. The side-effect
  function of either register returns the state it was given when the register holds
  zero. So after the write of zero nothing but the written register has changed: the mask
  is the old one, and the written register reads zero, not the mask.
\<close>

theorem inten_write_zero_noop:
  "(INTENSET (NRF_AAR_regs s) = 0 \<longrightarrow> nrf_aar_regw_sideeffects_INTENSET s = s)
   \<and> (INTENCLR (NRF_AAR_regs s) = 0 \<longrightarrow> nrf_aar_regw_sideeffects_INTENCLR s = s)
   \<and> write_INTENSET 0 s = s\<lparr> NRF_AAR_regs := (NRF_AAR_regs s)\<lparr> INTENSET := 0 \<rparr> \<rparr>
   \<and> write_INTENCLR 0 s = s\<lparr> NRF_AAR_regs := (NRF_AAR_regs s)\<lparr> INTENCLR := 0 \<rparr> \<rparr>"
  by (simp add: write_INTENSET_def write_INTENCLR_def nrf_aar_regw_sideeffects_INTENSET_def
        nrf_aar_regw_sideeffects_INTENCLR_def)

text \<open>
  On \<open>ex_idle\<close>, whose INTENSET and INTENCLR are zero, with the mask \<open>5\<close>: both
  side-effect functions return the state unchanged, and INTENSET still reads \<open>0\<close>
  while the mask is \<open>5\<close>.
\<close>

theorem inten_write_zero_noop_witness:
  "INTENSET (NRF_AAR_regs (ex_idle\<lparr> AAR_INTEN := 5 \<rparr>)) = 0
   \<and> INTENCLR (NRF_AAR_regs (ex_idle\<lparr> AAR_INTEN := 5 \<rparr>)) = 0
   \<and> nrf_aar_regw_sideeffects_INTENSET (ex_idle\<lparr> AAR_INTEN := 5 \<rparr>) = ex_idle\<lparr> AAR_INTEN := 5 \<rparr>
   \<and> nrf_aar_regw_sideeffects_INTENCLR (ex_idle\<lparr> AAR_INTEN := 5 \<rparr>) = ex_idle\<lparr> AAR_INTEN := 5 \<rparr>
   \<and> AAR_INTEN (write_INTENSET 0 (ex_idle\<lparr> AAR_INTEN := 5 \<rparr>)) = 5
   \<and> INTENSET (NRF_AAR_regs (write_INTENSET 0 (ex_idle\<lparr> AAR_INTEN := 5 \<rparr>))) = 0"
  using inten_write_zero_noop [of "ex_idle\<lparr> AAR_INTEN := 5 \<rparr>"]
  by (simp add: ex_idle_def ex_regs_def regs_zero_def)

subsection \<open>Word arithmetic\<close>

lemma word_succ_le: "(i :: u32) < m \<Longrightarrow> i + 1 \<le> m"
  by (simp add: inc_le)

lemma unat_succ: "(i :: u32) < m \<Longrightarrow> unat (i + 1) = unat i + 1"
proof -
  assume "i < m"
  then have "unat i < unat m"
    by (simp add: word_less_nat_alt)
  moreover have "unat m < 2 ^ 32"
    using unsigned_less [of m, where ?'a = nat] by simp
  ultimately have "unat i + 1 < 2 ^ 32"
    by simp
  then show ?thesis
    by (simp add: unat_word_ariths)
qed

lemma word_less_succ: "(i :: u32) < m \<Longrightarrow> i < i + 1"
  by (simp add: word_less_nat_alt unat_succ)

lemma word_le_succ_cases: "(i :: u32) \<le> j \<Longrightarrow> j = i \<or> i + 1 \<le> j"
  by (metis inc_le order_le_imp_less_or_eq)

lemma six_times_in_range:
  fixes n :: u32
  assumes "6 * unat n < 2 ^ 31"
  shows "unat (scast (6 * n) :: bs_time_t) = 6 * unat n"
proof -
  have u: "unat (6 * n) = 6 * unat n"
    using assms by (simp add: unat_word_ariths)
  then have ui: "uint (6 * n) = int (6 * unat n)"
    by (metis uint_nat)
  have "sint (6 * n) = signed_take_bit 31 (uint (6 * n))"
    by (simp add: sint_uint)
  also have "\<dots> = signed_take_bit 31 (int (6 * unat n))"
    by (simp only: ui)
  also have "\<dots> = int (6 * unat n)"
  proof (rule signed_take_bit_int_eq_self)
    have "- (2 ^ 31) \<le> (0 :: int)"
      by simp
    also have "0 \<le> int (6 * unat n)"
      by (rule of_nat_0_le_iff)
    finally show "- (2 ^ 31) \<le> int (6 * unat n)" .
    have "int (6 * unat n) < int (2 ^ 31)"
      using assms by (simp only: of_nat_less_iff)
    then show "int (6 * unat n) < 2 ^ 31"
      by simp
  qed
  finally have s: "sint (6 * n) = int (6 * unat n)"
    .
  have "(scast (6 * n) :: bs_time_t) = of_nat (6 * unat n)"
    unfolding scast_eq s by simp
  then have "unat (scast (6 * n) :: bs_time_t) = (6 * unat n) mod 2 ^ 64"
    by (simp only: unat_of_nat len_of_numeral_defs) simp
  with assms show ?thesis
    by simp
qed

lemma bytes3_bitwise:
  fixes b0 b1 b2 b3 :: u8
  shows "(ucast b0 OR push_bit 8 (ucast b1) OR push_bit 16 (ucast b2) OR push_bit 24 (ucast b3)) AND (0xFFFFFF :: u32)
       = (ucast b0 OR push_bit 8 (ucast b1) OR push_bit 16 (ucast b2) :: u32)"
proof -
  have m: "(0xFFFFFF :: u32) = mask 24"
    by (simp add: mask_eq_exp_minus_1)
  show ?thesis
    unfolding m
    by (rule bit_word_eqI) (auto simp add: bit_simps dest: bit_imp_le_length)
qed

lemma bytes3_sum:
  fixes b0 b1 b2 :: u8
  shows "(ucast b0 OR push_bit 8 (ucast b1) OR push_bit 16 (ucast b2) :: u32)
       = ucast b0 + push_bit 8 (ucast b1) + push_bit 16 (ucast b2)"
proof -
  have "(ucast b0 :: u32) + push_bit 8 (ucast b1) = ucast b0 OR push_bit 8 (ucast b1)"
    by (rule disjunctive_add) (auto simp add: bit_simps dest: bit_imp_le_length)
  moreover have "(ucast b0 OR push_bit 8 (ucast b1) :: u32) + push_bit 16 (ucast b2)
      = (ucast b0 OR push_bit 8 (ucast b1)) OR push_bit 16 (ucast b2)"
    by (rule disjunctive_add) (auto simp add: bit_simps dest: bit_imp_le_length)
  ultimately show ?thesis
    by (simp add: or.assoc)
qed

lemma unat_u8_bound: "unat (b :: u8) < 256"
  using unsigned_less [of b, where ?'a = nat] by simp

lemma bytes3_unat:
  fixes b0 b1 b2 :: u8
  shows "unat (ucast b0 OR push_bit 8 (ucast b1) OR push_bit 16 (ucast b2) :: u32)
       = unat b0 + 2 ^ 8 * unat b1 + 2 ^ 16 * unat b2"
proof -
  have "unat b0 + 256 * unat b1 + 65536 * unat b2 < 2 ^ 32"
    using unat_u8_bound [of b0] unat_u8_bound [of b1] unat_u8_bound [of b2] by simp
  then show ?thesis
    unfolding bytes3_sum
    using unat_u8_bound [of b0] unat_u8_bound [of b1] unat_u8_bound [of b2]
    by (simp add: push_bit_eq_mult unat_word_ariths unsigned_ucast_eq take_bit_eq_mod)
qed

subsection \<open>The resolution engine\<close>

lemma prand_bytes:
  "prand mem regs =
     ucast (address_byte mem regs 3) OR push_bit 8 (ucast (address_byte mem regs 4)) OR
     push_bit 16 (ucast (address_byte mem regs 5))"
  by (simp add: prand_def read_u32_def address_ptr_def address_byte_def bytes3_bitwise add.assoc)

lemma hash_bytes:
  "hash mem regs =
     ucast (address_byte mem regs 0) OR push_bit 8 (ucast (address_byte mem regs 1)) OR
     push_bit 16 (ucast (address_byte mem regs 2))"
  by (simp add: hash_def read_u32_def address_ptr_def address_byte_def bytes3_bitwise add.assoc)

lemma prand_unat: "unat (prand mem regs) = prand_field mem regs"
  by (simp only: prand_bytes bytes3_unat prand_field_def)

lemma hash_unat: "unat (hash mem regs) = hash_field mem regs"
  by (simp only: hash_bytes bytes3_unat hash_field_def)

lemma prand_top_bits: "unat (drop_bit 22 (prand mem regs)) = prand_field mem regs div 2 ^ 22"
  unfolding unat_drop_bit_eq prand_unat by (simp only: drop_bit_eq_div)

lemma resolve_loop_match:
  "resolve_loop aes mem regs cs i = (g, n, cs') \<Longrightarrow> g \<noteq> - 1 \<Longrightarrow>
     i \<le> g \<and> g < NIRK regs \<and> n = g + 1 \<and> hash_check aes mem regs g = hash mem regs
     \<and> (\<forall>j. i \<le> j \<and> j < g \<longrightarrow> hash_check aes mem regs j \<noteq> hash mem regs)"
proof (induction aes mem regs cs i rule: resolve_loop.induct)
  case (1 aes mem regs cs i)
  show ?case
  proof (cases "i < NIRK regs")
    case False
    with "1.prems" show ?thesis
      by (simp add: resolve_loop.simps [of aes mem regs cs i])
  next
    case lt: True
    show ?thesis
    proof (cases "hash mem regs = hash_check aes mem regs i")
      case True
      with lt "1.prems" show ?thesis
        by (auto simp add: resolve_loop.simps [of aes mem regs cs i])
    next
      case False
      with lt "1.prems" have rec:
        "resolve_loop aes mem regs (cs @ [Aes_128 (irk mem regs i) (prand_buf mem regs)]) (i + 1)
           = (g, n, cs')"
        by (simp add: resolve_loop.simps [of aes mem regs cs i])
      from "1.IH" [OF lt False rec "1.prems"(2)]
      have ih: "i + 1 \<le> g" "g < NIRK regs" "n = g + 1"
        "hash_check aes mem regs g = hash mem regs"
        "\<forall>j. i + 1 \<le> j \<and> j < g \<longrightarrow> hash_check aes mem regs j \<noteq> hash mem regs"
        by simp_all
      have "i < i + 1"
        using lt by (rule word_less_succ)
      with ih(1) have "i \<le> g"
        by simp
      moreover have "hash_check aes mem regs j \<noteq> hash mem regs" if "i \<le> j" "j < g" for j
        using word_le_succ_cases [OF that(1)] that(2) ih(5) False by auto
      ultimately show ?thesis
        using ih by blast
    qed
  qed
qed

lemma resolve_loop_count:
  "resolve_loop aes mem regs cs i = (g, n, cs') \<Longrightarrow> i \<le> NIRK regs \<Longrightarrow> n \<le> NIRK regs"
proof (induction aes mem regs cs i arbitrary: g n cs' rule: resolve_loop.induct)
  case (1 aes mem regs cs i)
  show ?case
  proof (cases "i < NIRK regs")
    case False
    with "1.prems" show ?thesis
      by (simp add: resolve_loop.simps [of aes mem regs cs i])
  next
    case lt: True
    then have le: "i + 1 \<le> NIRK regs"
      by (rule word_succ_le)
    show ?thesis
    proof (cases "hash mem regs = hash_check aes mem regs i")
      case True
      with lt le "1.prems" show ?thesis
        by (auto simp add: resolve_loop.simps [of aes mem regs cs i])
    next
      case False
      with lt "1.prems" have rec:
        "resolve_loop aes mem regs (cs @ [Aes_128 (irk mem regs i) (prand_buf mem regs)]) (i + 1)
           = (g, n, cs')"
        by (simp add: resolve_loop.simps [of aes mem regs cs i])
      from "1.IH" [OF lt False rec le] show ?thesis .
    qed
  qed
qed

lemma resolve_count: "fst (snd (nrf_aar_resolve aes mem regs)) \<le> NIRK regs"
proof (cases "drop_bit 22 (prand mem regs) \<noteq> 1")
  case True
  then show ?thesis by (simp add: nrf_aar_resolve_def)
next
  case False
  obtain g n cs where r: "resolve_loop aes mem regs [] 0 = (g, n, cs)"
    by (cases "resolve_loop aes mem regs [] 0") auto
  from resolve_loop_count [OF r] have "n \<le> NIRK regs" by simp
  with False r show ?thesis by (simp add: nrf_aar_resolve_def)
qed

lemma ex_resolve:
  "nrf_aar_resolve xor_gateway ex_mem ex_regs =
     (1, 2,
      [Aes_128 [0, 0, 0, 0, 0, 0, 0, 0, 0, 0, 0, 0, 0, 0, 0, 0]
               [0, 0, 0, 0, 0, 0, 0, 0, 0, 0, 0, 0, 0, 0x40, 0, 0],
       Aes_128 [0, 0, 0, 0, 0, 0, 0, 0, 0, 0, 0, 0, 0, 0, 0, 1]
               [0, 0, 0, 0, 0, 0, 0, 0, 0, 0, 0, 0, 0, 0x40, 0, 0]])"
  by code_simp

text \<open>
  Claim C2. Whenever \<open>nrf_aar_resolve\<close> returns a matched index \<open>good_irk\<close> other than
  \<open>-1\<close>, the returned count of keys examined is \<open>good_irk + 1\<close> (as a number too: the
  addition does not wrap), the index is below NIRK, the 24-bit hash check recomputed
  from key \<open>good_irk\<close> equals the 24-bit hash of the address, and no key at a smaller
  index has a hash check equal to that hash.
\<close>

theorem resolve_first_match:
  assumes "nrf_aar_resolve aes mem regs = (good_irk, n_irks, cs)" and "good_irk \<noteq> - 1"
  shows "n_irks = good_irk + 1 \<and> unat n_irks = unat good_irk + 1
     \<and> good_irk < NIRK regs
     \<and> hash_check aes mem regs good_irk = hash mem regs
     \<and> (\<forall>j. j < good_irk \<longrightarrow> hash_check aes mem regs j \<noteq> hash mem regs)"
proof -
  from assms have r: "resolve_loop aes mem regs [] 0 = (good_irk, n_irks, cs)"
    by (auto simp add: nrf_aar_resolve_def split: if_splits)
  from resolve_loop_match [OF r assms(2)]
  have m: "good_irk < NIRK regs" "n_irks = good_irk + 1"
    "hash_check aes mem regs good_irk = hash mem regs"
    "\<forall>j. j < good_irk \<longrightarrow> hash_check aes mem regs j \<noteq> hash mem regs"
    by simp_all
  have "unat (good_irk + 1) = unat good_irk + 1"
    using m(1) by (rule unat_succ)
  with m show ?thesis by simp
qed

text \<open>
  On the example memory, with two keys of which only key 1 matches: the engine returns
  index 1 and count 2, key 1 matches and key 0 does not.
\<close>

theorem resolve_first_match_witness:
  "fst (nrf_aar_resolve xor_gateway ex_mem ex_regs) = 1
   \<and> fst (snd (nrf_aar_resolve xor_gateway ex_mem ex_regs)) = 2
   \<and> (1 :: u32) \<noteq> - 1
   \<and> hash_check xor_gateway ex_mem ex_regs 1 = hash ex_mem ex_regs
   \<and> hash_check xor_gateway ex_mem ex_regs 0 \<noteq> hash ex_mem ex_regs"
  using resolve_first_match [OF ex_resolve]
  by (simp add: ex_resolve)

text \<open>
  Claim C3. For every address whose 24-bit prand field (address bytes 3 to 5, read
  little-endian) does not have 01 as its top two bits, \<open>nrf_aar_resolve\<close> returns no
  match (\<open>-1\<close>) and the count NIRK, and makes no call to the AES-128 gateway: the list of
  its gateway calls is empty.
\<close>

theorem resolve_not_resolvable:
  assumes "prand_field mem regs div 2 ^ 22 \<noteq> 1"
  shows "nrf_aar_resolve aes mem regs = (- 1, NIRK regs, [])"
proof -
  have "drop_bit 22 (prand mem regs) \<noteq> 1"
  proof
    assume "drop_bit 22 (prand mem regs) = 1"
    then have "unat (drop_bit 22 (prand mem regs)) = 1"
      by simp
    with assms show False
      by (simp only: prand_top_bits)
  qed
  then show ?thesis
    by (simp add: nrf_aar_resolve_def)
qed

text \<open>
  On the example memory whose address has prand \<open>0\<close>, with two keys: no match, count 2,
  no gateway call.
\<close>

theorem resolve_not_resolvable_witness:
  "prand_field ex_mem_nr ex_regs div 2 ^ 22 \<noteq> 1
   \<and> nrf_aar_resolve xor_gateway ex_mem_nr ex_regs = (- 1, 2, [])"
  using resolve_not_resolvable [of ex_mem_nr ex_regs xor_gateway]
  by (simp add: prand_field_def address_byte_def ex_mem_nr_def ex_regs_def regs_zero_def)


subsection \<open>The concrete configuration, evaluated\<close>

lemma ex_regs_simps:
  "ENABLE ex_regs = 3" "NIRK ex_regs = 2" "STATUS ex_regs = 0" "INTENSET ex_regs = 0"
  "INTENCLR ex_regs = 0" "ADDRPTR ex_regs = 0x100" "ENABLE regs_zero = 0"
  by (simp_all add: ex_regs_def regs_zero_def)

lemma ex_idle_simps:
  "NRF_AAR_regs ex_idle = ex_regs" "Timer_AAR ex_idle = TIME_NEVER" "AAR_INTEN ex_idle = 0"
  "\<not> AAR_Running ex_idle" "matching_irk ex_idle = 0" "calls ex_idle = []"
  by (simp_all add: ex_idle_def)

lemma ex_not_resolvable:
  "ADDRPTR r = 0x100 \<Longrightarrow> nrf_aar_resolve aes ex_mem_nr r = (- 1, NIRK r, [])"
  by (simp add: nrf_aar_resolve_def prand_def read_u32_def address_ptr_def ex_mem_nr_def)

lemma ex_resolve_nr: "nrf_aar_resolve xor_gateway ex_mem_nr ex_regs = (- 1, 2, [])"
  by (simp add: ex_not_resolvable ex_regs_simps)

lemma ex_running_fields:
  "AAR_Running ex_running"
  "Timer_AAR ex_running = 113"
  "matching_irk ex_running = 1"
  "NRF_AAR_regs ex_running = ex_regs"
  "AAR_INTEN ex_running = 0"
  "ppi_trace (calls ex_running) = []"
  by (simp_all add: ex_running_def nrf_aar_TASK_START_def ex_idle_simps ex_regs_simps ex_resolve)

subsection \<open>Start\<close>

lemma start_disabled:
  "ENABLE (NRF_AAR_regs s) \<noteq> 3 \<Longrightarrow> nrf_aar_TASK_START aes mem now s = s"
  by (simp add: nrf_aar_TASK_START_def)

lemma start_enabled:
  "ENABLE (NRF_AAR_regs s) = 3 \<Longrightarrow>
   nrf_aar_resolve aes mem (NRF_AAR_regs s) = (good_irk, n_irks, cs) \<Longrightarrow>
   nrf_aar_TASK_START aes mem now s =
     s\<lparr> AAR_Running := True, matching_irk := good_irk,
        Timer_AAR := now + 1 + scast (6 * n_irks),
        calls := calls s @ cs @ [Find_next_event (now + 1 + scast (6 * n_irks))] \<rparr>"
  by (simp add: nrf_aar_TASK_START_def)

lemma start_time_in_range:
  fixes n m :: u32 and now :: bs_time_t
  assumes "n \<le> m" and "6 * unat m < 2 ^ 31" and "unat now + 1 + 6 * unat m < 2 ^ 64 - 1"
  shows "unat (now + 1 + scast (6 * n)) = unat now + 1 + 6 * unat n"
proof -
  have le: "unat n \<le> unat m"
    using assms(1) by (simp add: word_le_nat_alt)
  then have "6 * unat n < 2 ^ 31"
    using assms(2) by simp
  then have six: "unat (scast (6 * n) :: bs_time_t) = 6 * unat n"
    by (rule six_times_in_range)
  have "unat now + 1 + 6 * unat n < 2 ^ 64"
    using le assms(3) by simp
  then show ?thesis
    by (simp add: unat_word_ariths six)
qed

lemma unat_TIME_NEVER: "unat TIME_NEVER = 2 ^ 64 - 1"
  by (simp add: TIME_NEVER_def unsigned_minus_1_eq_mask mask_eq_exp_minus_1)

text \<open>
  Claim C4. For every Start that is accepted (ENABLE is 3), with \<open>n_irks\<close> the count
  that the resolution engine returns for it, the completion time stored in \<open>Timer_AAR\<close>
  is \<open>now + 1 + 6 * n_irks\<close> in the arithmetic of the C expression, and the scheduler
  is then told to pick it up (the last call is \<open>nsi_hws_find_next_event\<close> with that
  value). When the arithmetic of the start is in range, that time is the number
  \<open>now + 1 + 6 * n_irks\<close>.
\<close>

theorem start_completion_time:
  assumes "ENABLE (NRF_AAR_regs s) = 3"
    and "nrf_aar_resolve aes mem (NRF_AAR_regs s) = (good_irk, n_irks, cs)"
  shows "Timer_AAR (nrf_aar_TASK_START aes mem now s) = now + 1 + scast (6 * n_irks)
    \<and> last (calls (nrf_aar_TASK_START aes mem now s)) = Find_next_event (now + 1 + scast (6 * n_irks))
    \<and> (start_in_range now (NRF_AAR_regs s) \<longrightarrow>
         unat (Timer_AAR (nrf_aar_TASK_START aes mem now s)) = unat now + 1 + 6 * unat n_irks)"
proof -
  have n: "n_irks \<le> NIRK (NRF_AAR_regs s)"
    using resolve_count [of aes mem "NRF_AAR_regs s"] assms(2) by simp
  have "unat (now + 1 + scast (6 * n_irks)) = unat now + 1 + 6 * unat n_irks"
    if "start_in_range now (NRF_AAR_regs s)"
    using that assms(1) by (intro start_time_in_range [OF n]) (simp_all add: start_in_range_def)
  then show ?thesis
    by (simp add: start_enabled [OF assms])
qed

text \<open>
  From \<open>ex_idle\<close> at time 100: two keys are examined, the completion is at
  \<open>100 + 1 + 6 * 2 = 113\<close>.
\<close>

theorem start_completion_time_witness:
  "ENABLE (NRF_AAR_regs ex_idle) = 3
   \<and> fst (snd (nrf_aar_resolve xor_gateway ex_mem (NRF_AAR_regs ex_idle))) = 2
   \<and> start_in_range 100 (NRF_AAR_regs ex_idle)
   \<and> Timer_AAR (nrf_aar_TASK_START xor_gateway ex_mem 100 ex_idle) = 113
   \<and> unat (Timer_AAR (nrf_aar_TASK_START xor_gateway ex_mem 100 ex_idle)) = 100 + 1 + 6 * 2"
proof -
  have e: "ENABLE (NRF_AAR_regs ex_idle) = 3"
    by (simp add: ex_idle_simps ex_regs_simps)
  have r: "nrf_aar_resolve xor_gateway ex_mem (NRF_AAR_regs ex_idle) =
      (1, 2, snd (snd (nrf_aar_resolve xor_gateway ex_mem (NRF_AAR_regs ex_idle))))"
    by (simp add: ex_idle_simps ex_resolve)
  have i: "start_in_range 100 (NRF_AAR_regs ex_idle)"
    by (simp add: start_in_range_def ex_idle_simps ex_regs_simps)
  from start_completion_time [OF e r, of 100] i
  have "Timer_AAR (nrf_aar_TASK_START xor_gateway ex_mem 100 ex_idle) = 113"
    "unat (Timer_AAR (nrf_aar_TASK_START xor_gateway ex_mem 100 ex_idle)) = 100 + 1 + 6 * 2"
    by simp_all
  with e i show ?thesis
    by (simp add: ex_idle_simps ex_resolve)
qed

text \<open>
  Claim C1, as the code has it. Start is a no-op (the whole state is unchanged) whenever
  the peripheral is not enabled. Start has no guard on \<open>AAR_Running\<close>: when the
  peripheral is enabled, a Start is accepted whether or not a resolution is running. It
  sets \<open>AAR_Running\<close>, latches the result of a new resolution and replaces the pending
  completion time, and the state it leaves does not depend on the running flag, the
  pending completion time or the latched result it found.
\<close>

theorem start_noop_when_disabled:
  "(ENABLE (NRF_AAR_regs s) \<noteq> 3 \<longrightarrow> nrf_aar_TASK_START aes mem now s = s)
   \<and> (ENABLE (NRF_AAR_regs s) = 3 \<longrightarrow>
        AAR_Running (nrf_aar_TASK_START aes mem now s)
        \<and> matching_irk (nrf_aar_TASK_START aes mem now s) = fst (nrf_aar_resolve aes mem (NRF_AAR_regs s))
        \<and> Timer_AAR (nrf_aar_TASK_START aes mem now s) =
            now + 1 + scast (6 * fst (snd (nrf_aar_resolve aes mem (NRF_AAR_regs s))))
        \<and> nrf_aar_TASK_START aes mem now (s\<lparr> AAR_Running := r, Timer_AAR := t, matching_irk := m \<rparr>)
            = nrf_aar_TASK_START aes mem now s)"
  by (simp add: nrf_aar_TASK_START_def split: prod.splits)

text \<open>
  With the registers zeroed (ENABLE is 0) Start changes nothing; from \<open>ex_idle\<close> (ENABLE
  is 3) at time 100 it leaves the peripheral running with key 1 latched and the
  completion at 113.
\<close>

theorem start_noop_when_disabled_witness:
  "ENABLE (NRF_AAR_regs (ex_idle\<lparr> NRF_AAR_regs := regs_zero \<rparr>)) \<noteq> 3
   \<and> nrf_aar_TASK_START xor_gateway ex_mem 100 (ex_idle\<lparr> NRF_AAR_regs := regs_zero \<rparr>) =
       ex_idle\<lparr> NRF_AAR_regs := regs_zero \<rparr>
   \<and> ENABLE (NRF_AAR_regs ex_idle) = 3
   \<and> AAR_Running (nrf_aar_TASK_START xor_gateway ex_mem 100 ex_idle)
   \<and> matching_irk (nrf_aar_TASK_START xor_gateway ex_mem 100 ex_idle) = 1
   \<and> Timer_AAR (nrf_aar_TASK_START xor_gateway ex_mem 100 ex_idle) = 113"
proof -
  have d: "ENABLE (NRF_AAR_regs (ex_idle\<lparr> NRF_AAR_regs := regs_zero \<rparr>)) \<noteq> 3"
    by (simp add: ex_regs_simps)
  have e: "ENABLE (NRF_AAR_regs ex_idle) = 3"
    by (simp add: ex_idle_simps ex_regs_simps)
  from start_noop_when_disabled [of "ex_idle\<lparr> NRF_AAR_regs := regs_zero \<rparr>" xor_gateway ex_mem 100] d
  have 1: "nrf_aar_TASK_START xor_gateway ex_mem 100 (ex_idle\<lparr> NRF_AAR_regs := regs_zero \<rparr>) =
       ex_idle\<lparr> NRF_AAR_regs := regs_zero \<rparr>"
    by blast
  from start_noop_when_disabled [of ex_idle xor_gateway ex_mem 100] e
  have 2: "AAR_Running (nrf_aar_TASK_START xor_gateway ex_mem 100 ex_idle)
    \<and> matching_irk (nrf_aar_TASK_START xor_gateway ex_mem 100 ex_idle) =
        fst (nrf_aar_resolve xor_gateway ex_mem (NRF_AAR_regs ex_idle))
    \<and> Timer_AAR (nrf_aar_TASK_START xor_gateway ex_mem 100 ex_idle) =
        100 + 1 + scast (6 * fst (snd (nrf_aar_resolve xor_gateway ex_mem (NRF_AAR_regs ex_idle))))"
    by blast
  from d e 1 2 show ?thesis
    by (simp add: ex_idle_simps ex_resolve)
qed

text \<open>
  Claim C1 as stated fails. \<open>ex_running\<close> is enabled and running, with completion
  pending at 113 and key 1 latched; a Start at time 105, on the address that is not
  resolvable, moves the pending completion to 118 and latches "no match".
\<close>

theorem start_while_running_counterexample:
  "ENABLE (NRF_AAR_regs ex_running) = 3 \<and> AAR_Running ex_running
   \<and> Timer_AAR ex_running = 113 \<and> matching_irk ex_running = 1
   \<and> Timer_AAR (nrf_aar_TASK_START xor_gateway ex_mem_nr 105 ex_running) = 118
   \<and> matching_irk (nrf_aar_TASK_START xor_gateway ex_mem_nr 105 ex_running) = - 1
   \<and> nrf_aar_TASK_START xor_gateway ex_mem_nr 105 ex_running \<noteq> ex_running"
proof -
  have t: "Timer_AAR (nrf_aar_TASK_START xor_gateway ex_mem_nr 105 ex_running) = 118"
    and m: "matching_irk (nrf_aar_TASK_START xor_gateway ex_mem_nr 105 ex_running) = - 1"
    by (simp_all add: nrf_aar_TASK_START_def ex_running_fields ex_regs_simps ex_resolve_nr)
  have "nrf_aar_TASK_START xor_gateway ex_mem_nr 105 ex_running \<noteq> ex_running"
  proof
    assume "nrf_aar_TASK_START xor_gateway ex_mem_nr 105 ex_running = ex_running"
    then have "Timer_AAR (nrf_aar_TASK_START xor_gateway ex_mem_nr 105 ex_running) =
        Timer_AAR ex_running"
      by simp
    then show False
      by (simp add: t ex_running_fields)
  qed
  with t m show ?thesis
    by (simp add: ex_running_fields ex_regs_simps)
qed

subsection \<open>Completion and Stop\<close>

text \<open>
  Claim C5. Every run of the completion callback publishes exactly two events, in this
  order: first Resolved if a match is latched (\<open>matching_irk\<close> is not \<open>-1\<close>) and
  NotResolved otherwise, then End. When the first event is published its flag is
  already 1 and EVENTS\_END is still what it was before the callback; on a match STATUS
  already holds the matched index. When End is published EVENTS\_END is 1.
\<close>

theorem timer_triggered_events:
  "ppi_trace (calls (nrf_aar_timer_triggered s)) =
     ppi_trace (calls s) @
       (if matching_irk s \<noteq> - 1
        then [(AAR_EVENTS_RESOLVED,
                (NRF_AAR_regs s)\<lparr> STATUS := matching_irk s, EVENTS_RESOLVED := 1 \<rparr>),
              (AAR_EVENTS_END,
                (NRF_AAR_regs s)\<lparr> STATUS := matching_irk s, EVENTS_RESOLVED := 1, EVENTS_END := 1 \<rparr>)]
        else [(AAR_EVENTS_NOTRESOLVED, (NRF_AAR_regs s)\<lparr> EVENTS_NOTRESOLVED := 1 \<rparr>),
              (AAR_EVENTS_END, (NRF_AAR_regs s)\<lparr> EVENTS_NOTRESOLVED := 1, EVENTS_END := 1 \<rparr>)])"
  by (simp add: nrf_aar_timer_triggered_def Let_def ppi_trace_signal_EVENTS_END
        ppi_trace_signal_EVENTS_RESOLVED ppi_trace_signal_EVENTS_NOTRESOLVED
        regs_signal_EVENTS_RESOLVED regs_signal_EVENTS_NOTRESOLVED ppi_trace_append)

text \<open>
  The completion of \<open>ex_running\<close> (key 1 latched): Resolved with STATUS 1, then End. A
  completion with no match latched: NotResolved, then End.
\<close>

theorem timer_triggered_events_witness:
  "ppi_trace (calls (nrf_aar_timer_triggered ex_running)) =
       [(AAR_EVENTS_RESOLVED, ex_regs\<lparr> STATUS := 1, EVENTS_RESOLVED := 1 \<rparr>),
        (AAR_EVENTS_END, ex_regs\<lparr> STATUS := 1, EVENTS_RESOLVED := 1, EVENTS_END := 1 \<rparr>)]
   \<and> ppi_trace (calls (nrf_aar_timer_triggered (ex_idle\<lparr> matching_irk := - 1 \<rparr>))) =
       [(AAR_EVENTS_NOTRESOLVED, ex_regs\<lparr> EVENTS_NOTRESOLVED := 1 \<rparr>),
        (AAR_EVENTS_END, ex_regs\<lparr> EVENTS_NOTRESOLVED := 1, EVENTS_END := 1 \<rparr>)]"
  using timer_triggered_events [of ex_running]
    timer_triggered_events [of "ex_idle\<lparr> matching_irk := - 1 \<rparr>"]
  by (simp add: ex_running_fields ex_idle_simps)

lemma timer_triggered_regs:
  "NRF_AAR_regs (nrf_aar_timer_triggered s) =
     (if matching_irk s \<noteq> - 1
      then (NRF_AAR_regs s)\<lparr> STATUS := matching_irk s, EVENTS_RESOLVED := 1, EVENTS_END := 1 \<rparr>
      else (NRF_AAR_regs s)\<lparr> EVENTS_NOTRESOLVED := 1, EVENTS_END := 1 \<rparr>)"
  by (simp add: nrf_aar_timer_triggered_def Let_def regs_signal_EVENTS_END
        regs_signal_EVENTS_RESOLVED regs_signal_EVENTS_NOTRESOLVED)

lemma timer_triggered_frame:
  "\<not> AAR_Running (nrf_aar_timer_triggered s)"
  "Timer_AAR (nrf_aar_timer_triggered s) = TIME_NEVER"
  "AAR_INTEN (nrf_aar_timer_triggered s) = AAR_INTEN s"
  "matching_irk (nrf_aar_timer_triggered s) = matching_irk s"
  by (simp_all add: nrf_aar_timer_triggered_def Let_def signal_frame)

text \<open>
  Claim C6. Stop while running clears the running flag and the pending completion time
  (\<open>Timer_AAR\<close> becomes \<open>TIME_NEVER\<close>, and the scheduler is told), and publishes End
  exactly once and no other event: the calls it adds are the scheduler update, the End
  event and, if the End interrupt is enabled, the interrupt. The only register it
  changes is EVENTS\_END. Stop while not running returns the state unchanged.
\<close>

theorem stop_cancels_and_ends:
  "(AAR_Running s \<longrightarrow>
      \<not> AAR_Running (nrf_aar_TASK_STOP s)
      \<and> Timer_AAR (nrf_aar_TASK_STOP s) = TIME_NEVER
      \<and> calls (nrf_aar_TASK_STOP s) =
          calls s @ [Find_next_event TIME_NEVER,
                     Ppi_event AAR_EVENTS_END ((NRF_AAR_regs s)\<lparr> EVENTS_END := 1 \<rparr>)] @
          (if AAR_INTEN s AND AAR_INTENSET_END_Msk \<noteq> 0 then [Irq_set] else [])
      \<and> ppi_trace (calls (nrf_aar_TASK_STOP s)) =
          ppi_trace (calls s) @ [(AAR_EVENTS_END, (NRF_AAR_regs s)\<lparr> EVENTS_END := 1 \<rparr>)]
      \<and> NRF_AAR_regs (nrf_aar_TASK_STOP s) = (NRF_AAR_regs s)\<lparr> EVENTS_END := 1 \<rparr>
      \<and> AAR_INTEN (nrf_aar_TASK_STOP s) = AAR_INTEN s
      \<and> matching_irk (nrf_aar_TASK_STOP s) = matching_irk s)
   \<and> (\<not> AAR_Running s \<longrightarrow> nrf_aar_TASK_STOP s = s)"
  by (simp add: nrf_aar_TASK_STOP_def signal_EVENTS_END_def Let_def ppi_trace_append)

text \<open>
  Stop on \<open>ex_running\<close> cancels the completion and publishes End only; Stop on
  \<open>ex_idle\<close> changes nothing.
\<close>

theorem stop_cancels_and_ends_witness:
  "AAR_Running ex_running
   \<and> \<not> AAR_Running (nrf_aar_TASK_STOP ex_running)
   \<and> Timer_AAR (nrf_aar_TASK_STOP ex_running) = TIME_NEVER
   \<and> ppi_trace (calls (nrf_aar_TASK_STOP ex_running)) =
       [(AAR_EVENTS_END, ex_regs\<lparr> EVENTS_END := 1 \<rparr>)]
   \<and> \<not> AAR_Running ex_idle
   \<and> nrf_aar_TASK_STOP ex_idle = ex_idle"
proof -
  have r: "AAR_Running ex_running"
    by (rule ex_running_fields)
  have i: "\<not> AAR_Running ex_idle"
    by (rule ex_idle_simps)
  from stop_cancels_and_ends [of ex_running] r
  have 1: "\<not> AAR_Running (nrf_aar_TASK_STOP ex_running)"
    "Timer_AAR (nrf_aar_TASK_STOP ex_running) = TIME_NEVER"
    "ppi_trace (calls (nrf_aar_TASK_STOP ex_running)) =
       ppi_trace (calls ex_running) @ [(AAR_EVENTS_END, (NRF_AAR_regs ex_running)\<lparr> EVENTS_END := 1 \<rparr>)]"
    by blast+
  from stop_cancels_and_ends [of ex_idle] i
  have 2: "nrf_aar_TASK_STOP ex_idle = ex_idle"
    by blast
  from r i 1 2 show ?thesis
    by (simp add: ex_running_fields)
qed

text \<open>
  Claim C7. STATUS is written only by a completion with a match latched, which stores
  the matched index. A completion with no match latched leaves STATUS as it was; so
  does the completion that follows an accepted Start whose resolution found no match.
  Stop, Start and the interrupt-enable side effects leave STATUS as it was.
\<close>

theorem status_written_only_on_match:
  "(matching_irk s = - 1 \<longrightarrow>
      STATUS (NRF_AAR_regs (nrf_aar_timer_triggered s)) = STATUS (NRF_AAR_regs s))
   \<and> (matching_irk s \<noteq> - 1 \<longrightarrow>
      STATUS (NRF_AAR_regs (nrf_aar_timer_triggered s)) = matching_irk s)
   \<and> (ENABLE (NRF_AAR_regs s) = 3 \<and> fst (nrf_aar_resolve aes mem (NRF_AAR_regs s)) = - 1 \<longrightarrow>
      STATUS (NRF_AAR_regs (nrf_aar_timer_triggered (nrf_aar_TASK_START aes mem now s))) =
        STATUS (NRF_AAR_regs s))
   \<and> STATUS (NRF_AAR_regs (nrf_aar_TASK_STOP s)) = STATUS (NRF_AAR_regs s)
   \<and> STATUS (NRF_AAR_regs (nrf_aar_TASK_START aes mem now s)) = STATUS (NRF_AAR_regs s)
   \<and> STATUS (NRF_AAR_regs (nrf_aar_regw_sideeffects_INTENSET s)) = STATUS (NRF_AAR_regs s)
   \<and> STATUS (NRF_AAR_regs (nrf_aar_regw_sideeffects_INTENCLR s)) = STATUS (NRF_AAR_regs s)"
  by (simp add: timer_triggered_regs nrf_aar_TASK_STOP_def regs_signal_EVENTS_END
        nrf_aar_TASK_START_def nrf_aar_regw_sideeffects_INTENSET_def
        nrf_aar_regw_sideeffects_INTENCLR_def Let_def split: prod.splits)

text \<open>
  With STATUS 5 before: a completion with no match latched leaves 5, a Start on the
  address that is not resolvable followed by its completion leaves 5, and Stop while
  running leaves 5. The completion of \<open>ex_running\<close> (key 1 latched) writes 1.
\<close>

theorem status_written_only_on_match_witness:
  "matching_irk (ex_idle\<lparr> NRF_AAR_regs := ex_regs\<lparr> STATUS := 5 \<rparr>, matching_irk := - 1 \<rparr>) = - 1
   \<and> STATUS (NRF_AAR_regs (nrf_aar_timer_triggered
         (ex_idle\<lparr> NRF_AAR_regs := ex_regs\<lparr> STATUS := 5 \<rparr>, matching_irk := - 1 \<rparr>))) = 5
   \<and> matching_irk ex_running \<noteq> - 1
   \<and> STATUS (NRF_AAR_regs (nrf_aar_timer_triggered ex_running)) = 1
   \<and> ENABLE (NRF_AAR_regs (ex_idle\<lparr> NRF_AAR_regs := ex_regs\<lparr> STATUS := 5 \<rparr> \<rparr>)) = 3
   \<and> fst (nrf_aar_resolve xor_gateway ex_mem_nr
         (NRF_AAR_regs (ex_idle\<lparr> NRF_AAR_regs := ex_regs\<lparr> STATUS := 5 \<rparr> \<rparr>))) = - 1
   \<and> STATUS (NRF_AAR_regs (nrf_aar_timer_triggered
         (nrf_aar_TASK_START xor_gateway ex_mem_nr 100
            (ex_idle\<lparr> NRF_AAR_regs := ex_regs\<lparr> STATUS := 5 \<rparr> \<rparr>)))) = 5
   \<and> STATUS (NRF_AAR_regs (nrf_aar_TASK_STOP
         (ex_running\<lparr> NRF_AAR_regs := ex_regs\<lparr> STATUS := 5 \<rparr> \<rparr>))) = 5"
proof -
  have a: "matching_irk (ex_idle\<lparr> NRF_AAR_regs := ex_regs\<lparr> STATUS := 5 \<rparr>, matching_irk := - 1 \<rparr>) = - 1"
    by simp
  have b: "matching_irk ex_running \<noteq> - 1"
    by (simp add: ex_running_fields)
  have c: "ENABLE (NRF_AAR_regs (ex_idle\<lparr> NRF_AAR_regs := ex_regs\<lparr> STATUS := 5 \<rparr> \<rparr>)) = 3
      \<and> fst (nrf_aar_resolve xor_gateway ex_mem_nr
            (NRF_AAR_regs (ex_idle\<lparr> NRF_AAR_regs := ex_regs\<lparr> STATUS := 5 \<rparr> \<rparr>))) = - 1"
    by (simp add: ex_regs_simps ex_not_resolvable)
  from status_written_only_on_match
    [of "ex_idle\<lparr> NRF_AAR_regs := ex_regs\<lparr> STATUS := 5 \<rparr>, matching_irk := - 1 \<rparr>"
      xor_gateway ex_mem_nr 100] a
  have 1: "STATUS (NRF_AAR_regs (nrf_aar_timer_triggered
         (ex_idle\<lparr> NRF_AAR_regs := ex_regs\<lparr> STATUS := 5 \<rparr>, matching_irk := - 1 \<rparr>))) =
      STATUS (NRF_AAR_regs (ex_idle\<lparr> NRF_AAR_regs := ex_regs\<lparr> STATUS := 5 \<rparr>, matching_irk := - 1 \<rparr>))"
    by blast
  from status_written_only_on_match [of ex_running xor_gateway ex_mem_nr 100] b
  have 2: "STATUS (NRF_AAR_regs (nrf_aar_timer_triggered ex_running)) = matching_irk ex_running"
    by blast
  from status_written_only_on_match
    [of "ex_idle\<lparr> NRF_AAR_regs := ex_regs\<lparr> STATUS := 5 \<rparr> \<rparr>" xor_gateway ex_mem_nr 100] c
  have 3: "STATUS (NRF_AAR_regs (nrf_aar_timer_triggered
         (nrf_aar_TASK_START xor_gateway ex_mem_nr 100
            (ex_idle\<lparr> NRF_AAR_regs := ex_regs\<lparr> STATUS := 5 \<rparr> \<rparr>)))) =
       STATUS (NRF_AAR_regs (ex_idle\<lparr> NRF_AAR_regs := ex_regs\<lparr> STATUS := 5 \<rparr> \<rparr>))"
    by blast
  from status_written_only_on_match
    [of "ex_running\<lparr> NRF_AAR_regs := ex_regs\<lparr> STATUS := 5 \<rparr> \<rparr>" xor_gateway ex_mem_nr 100]
  have 4: "STATUS (NRF_AAR_regs (nrf_aar_TASK_STOP
         (ex_running\<lparr> NRF_AAR_regs := ex_regs\<lparr> STATUS := 5 \<rparr> \<rparr>))) =
       STATUS (NRF_AAR_regs (ex_running\<lparr> NRF_AAR_regs := ex_regs\<lparr> STATUS := 5 \<rparr> \<rparr>))"
    by blast
  from a b c 1 2 3 4 show ?thesis
    by (simp add: ex_running_fields)
qed

subsection \<open>Pending completion time and running flag\<close>

lemma start_keeps_pending_iff_running:
  assumes "(Timer_AAR s \<noteq> TIME_NEVER) = AAR_Running s"
    and "start_in_range now (NRF_AAR_regs s)"
  shows "(Timer_AAR (nrf_aar_TASK_START aes mem now s) \<noteq> TIME_NEVER) =
         AAR_Running (nrf_aar_TASK_START aes mem now s)"
proof (cases "ENABLE (NRF_AAR_regs s) = 3")
  case False
  with assms(1) show ?thesis
    by (simp add: start_disabled)
next
  case True
  obtain g n cs where r: "nrf_aar_resolve aes mem (NRF_AAR_regs s) = (g, n, cs)"
    by (cases "nrf_aar_resolve aes mem (NRF_AAR_regs s)") auto
  have n: "n \<le> NIRK (NRF_AAR_regs s)"
    using resolve_count [of aes mem "NRF_AAR_regs s"] r by simp
  from assms(2) True
  have rng: "6 * unat (NIRK (NRF_AAR_regs s)) < 2 ^ 31"
    "unat now + 1 + 6 * unat (NIRK (NRF_AAR_regs s)) < 2 ^ 64 - 1"
    by (simp_all add: start_in_range_def)
  have u: "unat (now + 1 + scast (6 * n)) = unat now + 1 + 6 * unat n"
    by (rule start_time_in_range [OF n rng])
  have "unat n \<le> unat (NIRK (NRF_AAR_regs s))"
    using n by (simp add: word_le_nat_alt)
  with rng(2) have "unat (now + 1 + scast (6 * n)) < 2 ^ 64 - 1"
    unfolding u by simp
  then have "now + 1 + scast (6 * n) \<noteq> TIME_NEVER"
    using unat_TIME_NEVER by auto
  then show ?thesis
    by (simp add: start_enabled [OF True r])
qed

lemma step_keeps_pending_iff_running:
  assumes "(Timer_AAR s \<noteq> TIME_NEVER) = AAR_Running s" and "op_in_range s op"
  shows "(Timer_AAR (step aes s op) \<noteq> TIME_NEVER) = AAR_Running (step aes s op)"
proof (cases op)
  case (Op_regs_write r)
  with assms show ?thesis by simp
next
  case (Op_TASK_START mem now)
  with assms show ?thesis
    by (simp add: start_keeps_pending_iff_running)
next
  case Op_TASK_STOP
  with assms show ?thesis
    by (simp add: nrf_aar_TASK_STOP_def signal_frame)
next
  case (Op_regw_TASKS_START mem now)
  with assms show ?thesis
    by (simp add: nrf_aar_regw_sideeffects_TASKS_START_def start_keeps_pending_iff_running
          start_in_range_def)
next
  case Op_regw_TASKS_STOP
  with assms show ?thesis
    by (simp add: nrf_aar_regw_sideeffects_TASKS_STOP_def nrf_aar_TASK_STOP_def signal_frame)
next
  case (Op_write_INTENSET v)
  with assms show ?thesis
    by (simp add: write_INTENSET_def nrf_aar_regw_sideeffects_INTENSET_def Let_def)
next
  case (Op_write_INTENCLR v)
  with assms show ?thesis
    by (simp add: write_INTENCLR_def nrf_aar_regw_sideeffects_INTENCLR_def Let_def)
next
  case Op_timer_triggered
  then show ?thesis
    by (simp add: timer_triggered_frame)
next
  case Op_init
  then show ?thesis
    by (simp add: nrf_aar_init_def)
qed

lemma run_keeps_pending_iff_running:
  "(Timer_AAR s \<noteq> TIME_NEVER) = AAR_Running s \<Longrightarrow> ops_in_range aes s ops \<Longrightarrow>
   (Timer_AAR (run aes s ops) \<noteq> TIME_NEVER) = AAR_Running (run aes s ops)"
proof (induction ops arbitrary: s)
  case Nil
  then show ?case by simp
next
  case (Cons op ops)
  from Cons.prems have "op_in_range s op" "ops_in_range aes (step aes s op) ops"
    by simp_all
  with Cons.prems(1) show ?case
    by (simp add: Cons.IH step_keeps_pending_iff_running)
qed

text \<open>
  Claim C9, as the code has it. In every state reached from the reset state by a
  sequence of operations (register writes by the firmware, Start and Stop triggered
  directly or through their task registers, writes to INTENSET and INTENCLR, the
  completion callback, re-initialisation) whose accepted starts have their arithmetic in
  range (six times NIRK fits a C \<open>int\<close>, and \<open>now + 1 + 6 * NIRK\<close> is before
  \<open>TIME_NEVER\<close>), the pending completion time is set (is not \<open>TIME_NEVER\<close>) if and only
  if the running flag is true.
\<close>

theorem pending_iff_running:
  assumes "ops_in_range aes (nrf_aar_init s0) ops"
  shows "(Timer_AAR (run aes (nrf_aar_init s0) ops) \<noteq> TIME_NEVER) =
         AAR_Running (run aes (nrf_aar_init s0) ops)"
  using assms by (intro run_keeps_pending_iff_running) (simp_all add: nrf_aar_init_def)

text \<open>The run \<open>ex_ops\<close> is in range; it ends running, with the completion at 213.\<close>

theorem pending_iff_running_witness:
  "ops_in_range xor_gateway (nrf_aar_init ex_idle) ex_ops
   \<and> (Timer_AAR (run xor_gateway (nrf_aar_init ex_idle) ex_ops) \<noteq> TIME_NEVER) =
       AAR_Running (run xor_gateway (nrf_aar_init ex_idle) ex_ops)
   \<and> AAR_Running (run xor_gateway (nrf_aar_init ex_idle) ex_ops)
   \<and> Timer_AAR (run xor_gateway (nrf_aar_init ex_idle) ex_ops) = 213"
proof -
  have h: "ops_in_range xor_gateway (nrf_aar_init ex_idle) ex_ops"
    by (simp add: ex_ops_def nrf_aar_init_def nrf_aar_TASK_START_def ex_regs_simps ex_resolve
          write_INTENSET_def nrf_aar_regw_sideeffects_INTENSET_def Let_def
          timer_triggered_regs start_in_range_def)
  have r: "AAR_Running (run xor_gateway (nrf_aar_init ex_idle) ex_ops)"
    "Timer_AAR (run xor_gateway (nrf_aar_init ex_idle) ex_ops) = 213"
    by (simp_all add: ex_ops_def nrf_aar_init_def nrf_aar_TASK_START_def ex_regs_simps
          ex_resolve ex_not_resolvable write_INTENSET_def nrf_aar_regw_sideeffects_INTENSET_def
          Let_def timer_triggered_regs)
  from pending_iff_running [OF h] h r show ?thesis
    by simp
qed

text \<open>
  Claim C9 as stated, for any sequence of operations, fails: \<open>Timer_AAR\<close> has
  \<open>TIME_NEVER\<close> among its values, and a start can compute it. From reset, the firmware
  programs the registers with NIRK \<open>0\<close> and a start is accepted one tick before
  \<open>TIME_NEVER\<close>: no key is examined, the completion time is \<open>TIME_NEVER\<close>, and the
  peripheral is running. The same happens with NIRK \<open>0xFFFFFFFF\<close> and the address that
  is not resolvable, at time 4: the count returned as an \<open>int\<close> is \<open>-1\<close>, and
  \<open>4 + 1 + 6 * (-1)\<close> in the 64-bit time type is \<open>TIME_NEVER\<close>. Neither run is in
  range.
\<close>

theorem pending_iff_running_counterexample:
  "AAR_Running (run xor_gateway (nrf_aar_init ex_idle)
      [Op_regs_write (ex_regs\<lparr> NIRK := 0 \<rparr>), Op_TASK_START ex_mem_nr (TIME_NEVER - 1)])
   \<and> Timer_AAR (run xor_gateway (nrf_aar_init ex_idle)
      [Op_regs_write (ex_regs\<lparr> NIRK := 0 \<rparr>), Op_TASK_START ex_mem_nr (TIME_NEVER - 1)])
       = TIME_NEVER
   \<and> \<not> ops_in_range xor_gateway (nrf_aar_init ex_idle)
      [Op_regs_write (ex_regs\<lparr> NIRK := 0 \<rparr>), Op_TASK_START ex_mem_nr (TIME_NEVER - 1)]
   \<and> AAR_Running (run xor_gateway (nrf_aar_init ex_idle)
      [Op_regs_write (ex_regs\<lparr> NIRK := 0xFFFFFFFF \<rparr>), Op_TASK_START ex_mem_nr 4])
   \<and> Timer_AAR (run xor_gateway (nrf_aar_init ex_idle)
      [Op_regs_write (ex_regs\<lparr> NIRK := 0xFFFFFFFF \<rparr>), Op_TASK_START ex_mem_nr 4])
       = TIME_NEVER
   \<and> \<not> ops_in_range xor_gateway (nrf_aar_init ex_idle)
      [Op_regs_write (ex_regs\<lparr> NIRK := 0xFFFFFFFF \<rparr>), Op_TASK_START ex_mem_nr 4]"
proof -
  have a: "run xor_gateway (nrf_aar_init ex_idle)
      [Op_regs_write (ex_regs\<lparr> NIRK := 0 \<rparr>), Op_TASK_START ex_mem_nr (TIME_NEVER - 1)] =
    nrf_aar_TASK_START xor_gateway ex_mem_nr (TIME_NEVER - 1)
      ((nrf_aar_init ex_idle)\<lparr> NRF_AAR_regs := ex_regs\<lparr> NIRK := 0 \<rparr> \<rparr>)"
    by simp
  have b: "run xor_gateway (nrf_aar_init ex_idle)
      [Op_regs_write (ex_regs\<lparr> NIRK := 0xFFFFFFFF \<rparr>), Op_TASK_START ex_mem_nr 4] =
    nrf_aar_TASK_START xor_gateway ex_mem_nr 4
      ((nrf_aar_init ex_idle)\<lparr> NRF_AAR_regs := ex_regs\<lparr> NIRK := 0xFFFFFFFF \<rparr> \<rparr>)"
    by simp
  have ra: "AAR_Running (nrf_aar_TASK_START xor_gateway ex_mem_nr (TIME_NEVER - 1)
      ((nrf_aar_init ex_idle)\<lparr> NRF_AAR_regs := ex_regs\<lparr> NIRK := 0 \<rparr> \<rparr>))"
    and ta: "Timer_AAR (nrf_aar_TASK_START xor_gateway ex_mem_nr (TIME_NEVER - 1)
      ((nrf_aar_init ex_idle)\<lparr> NRF_AAR_regs := ex_regs\<lparr> NIRK := 0 \<rparr> \<rparr>)) = TIME_NEVER"
    by (simp_all add: nrf_aar_TASK_START_def ex_regs_simps ex_not_resolvable)
  have rb: "AAR_Running (nrf_aar_TASK_START xor_gateway ex_mem_nr 4
      ((nrf_aar_init ex_idle)\<lparr> NRF_AAR_regs := ex_regs\<lparr> NIRK := 0xFFFFFFFF \<rparr> \<rparr>))"
    and tb: "Timer_AAR (nrf_aar_TASK_START xor_gateway ex_mem_nr 4
      ((nrf_aar_init ex_idle)\<lparr> NRF_AAR_regs := ex_regs\<lparr> NIRK := 0xFFFFFFFF \<rparr> \<rparr>)) = TIME_NEVER"
    by (simp_all add: nrf_aar_TASK_START_def ex_regs_simps ex_not_resolvable TIME_NEVER_def)
  have na: "\<not> ops_in_range xor_gateway (nrf_aar_init ex_idle)
      [Op_regs_write (ex_regs\<lparr> NIRK := 0 \<rparr>), Op_TASK_START ex_mem_nr (TIME_NEVER - 1)]"
    by (simp add: start_in_range_def ex_regs_simps TIME_NEVER_def)
  have nb: "\<not> ops_in_range xor_gateway (nrf_aar_init ex_idle)
      [Op_regs_write (ex_regs\<lparr> NIRK := 0xFFFFFFFF \<rparr>), Op_TASK_START ex_mem_nr 4]"
    by (simp add: start_in_range_def ex_regs_simps)
  from ra ta rb tb na nb show ?thesis
    by (simp only: a b) simp
qed

end
